theory Spec2Isabelle
  imports Complex_Main
begin

section \<open>Values of the client (page.tsx)\<close>

text \<open>
  A JavaScript \<open>number\<close>, as far as the client looks at it: not-a-number, the two
  infinities, or a finite value (the two zeros are one value here: the client only ever
  tests them for truthiness). Strings are byte lists; the non-ASCII literals of the source
  are written as their UTF-8 bytes.
\<close>

datatype number = NaN | PosInfinity | NegInfinity | Fin real

text \<open>Truthiness of a number in a condition: \<open>0\<close> and \<open>NaN\<close> are falsy.\<close>

fun truthy :: "number \<Rightarrow> bool" where
  "truthy NaN = False"
| "truthy (Fin x) = (x \<noteq> 0)"
| "truthy PosInfinity = True"
| "truthy NegInfinity = True"

text \<open>The element type \<open>{ lat: number; lng: number }\<close> of a waypoint array.\<close>

record LatLng =
  lat :: number
  lng :: number

text \<open>\<open>interface Flight\<close>; the optional fields are \<open>None\<close> when absent.\<close>

record Flight =
  id :: string
  drone_id :: string
  pilot_id :: string
  start_time :: string
  end_time :: string
  altitude :: number
  waypoints :: "LatLng list"
  description :: "string option"
  status :: string
  created_at :: string
  violations :: "string list option"

text \<open>\<open>interface TelemetryData\<close>.\<close>

record TelemetryData =
  drone_id :: string
  lat :: number
  lng :: number
  altitude :: number
  speed :: number
  battery :: number
  timestamp :: string

text \<open>The state \<open>flightForm\<close>.\<close>

record FlightForm =
  drone_id :: string
  pilot_id :: string
  start_time :: string
  end_time :: string
  altitude :: number
  description :: string
  waypoints :: "LatLng list"

section \<open>Status labels\<close>

definition text_pending :: string where
  "text_pending = [CHR 0xD0, CHR 0x9E, CHR 0xD0, CHR 0xB6, CHR 0xD0, CHR 0xB8, CHR 0xD0, CHR 0xB4, CHR 0xD0, CHR 0xB0, CHR 0xD0, CHR 0xBD, CHR 0xD0, CHR 0xB8, CHR 0xD0, CHR 0xB5]"

definition text_approved :: string where
  "text_approved = [CHR 0xD0, CHR 0x9E, CHR 0xD0, CHR 0xB4, CHR 0xD0, CHR 0xBE, CHR 0xD0, CHR 0xB1, CHR 0xD1, CHR 0x80, CHR 0xD0, CHR 0xB5, CHR 0xD0, CHR 0xBD, CHR 0xD0, CHR 0xBE]"

definition text_rejected :: string where
  "text_rejected = [CHR 0xD0, CHR 0x9E, CHR 0xD1, CHR 0x82, CHR 0xD0, CHR 0xBA, CHR 0xD0, CHR 0xBB, CHR 0xD0, CHR 0xBE, CHR 0xD0, CHR 0xBD, CHR 0xD0, CHR 0xB5, CHR 0xD0, CHR 0xBD, CHR 0xD0, CHR 0xBE]"

definition text_active :: string where
  "text_active = [CHR 0xD0, CHR 0x90, CHR 0xD0, CHR 0xBA, CHR 0xD1, CHR 0x82, CHR 0xD0, CHR 0xB8, CHR 0xD0, CHR 0xB2, CHR 0xD0, CHR 0xBD, CHR 0xD0, CHR 0xBE]"

definition text_completed :: string where
  "text_completed = [CHR 0xD0, CHR 0x97, CHR 0xD0, CHR 0xB0, CHR 0xD0, CHR 0xB2, CHR 0xD0, CHR 0xB5, CHR 0xD1, CHR 0x80, CHR 0xD1, CHR 0x88, CHR 0xD0, CHR 0xB5, CHR 0xD0, CHR 0xBD, CHR 0xD0, CHR 0xBE]"

text \<open>The \<open>switch\<close> of \<open>getStatusColor\<close> has no case for \<open>pending\<close>: it takes the default.\<close>

definition getStatusColor :: "string \<Rightarrow> string" where
  "getStatusColor s =
     (if s = ''approved'' then ''text-green-600''
      else if s = ''rejected'' then ''text-red-600''
      else if s = ''active'' then ''text-blue-600''
      else if s = ''completed'' then ''text-gray-600''
      else ''text-yellow-600'')"

definition getStatusText :: "string \<Rightarrow> string" where
  "getStatusText s =
     (if s = ''pending'' then text_pending
      else if s = ''approved'' then text_approved
      else if s = ''rejected'' then text_rejected
      else if s = ''active'' then text_active
      else if s = ''completed'' then text_completed
      else s)"

section \<open>The waypoint list of the flight form\<close>

text \<open>\<open>addWaypoint\<close>: the state update \<open>prev \<mapsto> {...prev, waypoints: [...prev.waypoints, {lat, lng}]}\<close>.\<close>

definition addWaypoint :: "number \<Rightarrow> number \<Rightarrow> FlightForm \<Rightarrow> FlightForm" where
  "addWaypoint la lo prev =
     prev\<lparr>FlightForm.waypoints := FlightForm.waypoints prev @ [\<lparr>LatLng.lat = la, LatLng.lng = lo\<rparr>]\<rparr>"

text \<open>
  The two text inputs \<open>waypoint-lat\<close> and \<open>waypoint-lng\<close> and the click handler of the
  add-waypoint button. \<open>parseFloat\<close> is the built-in, taken as a parameter.
\<close>

record WaypointInputs =
  lat_value :: string
  lng_value :: string

definition addWaypointClick ::
  "(string \<Rightarrow> number) \<Rightarrow> WaypointInputs \<times> FlightForm \<Rightarrow> WaypointInputs \<times> FlightForm" where
  "addWaypointClick parseFloat st =
     (let inputs = fst st; form = snd st;
          la = parseFloat (lat_value inputs);
          lo = parseFloat (lng_value inputs)
      in if truthy la \<and> truthy lo
         then (inputs\<lparr>lat_value := [], lng_value := []\<rparr>, addWaypoint la lo form)
         else (inputs, form))"

text \<open>
  \<open>Array.prototype.filter\<close> with a callback that also reads the index: the elements are
  visited with their positions \<open>0, 1, ...\<close>, and those the callback accepts are kept in order.
\<close>

definition filter_indexed :: "('a \<Rightarrow> nat \<Rightarrow> bool) \<Rightarrow> 'a list \<Rightarrow> 'a list" where
  "filter_indexed p xs = map fst (filter (\<lambda>(x, i). p x i) (zip xs [0..<length xs]))"

text \<open>
  \<open>removeWaypoint\<close>: keeps the waypoints whose position \<open>i\<close> satisfies \<open>i !== index\<close>. The
  argument is a \<open>number\<close>; a position is never \<open>NaN\<close>, infinite or fractional.
\<close>

definition strict_neq_index :: "nat \<Rightarrow> number \<Rightarrow> bool" where
  "strict_neq_index i n = (n \<noteq> Fin (real i))"

definition removeWaypoint :: "number \<Rightarrow> FlightForm \<Rightarrow> FlightForm" where
  "removeWaypoint index prev =
     prev\<lparr>FlightForm.waypoints :=
            filter_indexed (\<lambda>_ i. strict_neq_index i index) (FlightForm.waypoints prev)\<rparr>"

section \<open>Live telemetry\<close>

text \<open>
  A parsed websocket message \<open>{ type, data }\<close> (the field \<open>type\<close> is \<open>msg_type\<close> here).
  The state \<open>telemetryData\<close> is a plain object, created as \<open>{}\<close> and rebuilt by object
  spread; the map below holds its own keys, \<open>None\<close> for a key it does not have.
\<close>

record Message =
  msg_type :: string
  data :: TelemetryData

type_synonym TelemetryState = "string \<rightharpoonup> TelemetryData list"

text \<open>
  A plain object also answers to the names it inherits from \<open>Object.prototype\<close>: the
  methods below and the accessor \<open>__proto__\<close>.
\<close>

definition object_prototype_names :: "string list" where
  "object_prototype_names =
     [''constructor'', ''__proto__'', ''hasOwnProperty'', ''isPrototypeOf'',
      ''propertyIsEnumerable'', ''toLocaleString'', ''toString'', ''valueOf'',
      ''__defineGetter__'', ''__defineSetter__'', ''__lookupGetter__'', ''__lookupSetter__'']"

text \<open>
  What \<open>prev[id]\<close> evaluates to: the array under an own key; else, for an inherited name, a
  function (for \<open>__proto__\<close> the prototype object), which is truthy and not iterable; else
  \<open>undefined\<close>.
\<close>

datatype property = Array "TelemetryData list" | Inherited | Undefined

definition get_property :: "TelemetryState \<Rightarrow> string \<Rightarrow> property" where
  "get_property prev k =
     (case prev k of
        Some l \<Rightarrow> Array l
      | None \<Rightarrow> if k \<in> set object_prototype_names then Inherited else Undefined)"

text \<open>\<open>xs.slice(-n)\<close> for a positive \<open>n\<close>: the last \<open>n\<close> elements, all of them when there are fewer.\<close>

definition slice_last :: "nat \<Rightarrow> 'a list \<Rightarrow> 'a list" where
  "slice_last n xs = drop (length xs - n) xs"

datatype exception = TypeError

text \<open>
  The handler \<open>onmessage\<close>, as the update it applies to \<open>telemetryData\<close>. In
  \<open>prev[id] || []\<close> an array is truthy whatever its length, so only \<open>undefined\<close> gives
  \<open>[]\<close>; an inherited value is truthy too, and spreading it into the array literal throws
  a \<open>TypeError\<close> before anything is stored.
\<close>

definition onmessage :: "Message \<Rightarrow> TelemetryState \<Rightarrow> exception + TelemetryState" where
  "onmessage message prev =
     (if msg_type message = ''telemetry''
      then let telemetry = data message
           in (case get_property prev (TelemetryData.drone_id telemetry) of
                 Array l \<Rightarrow>
                   Inr (prev(TelemetryData.drone_id telemetry \<mapsto> slice_last 50 (l @ [telemetry])))
               | Undefined \<Rightarrow>
                   Inr (prev(TelemetryData.drone_id telemetry \<mapsto> slice_last 50 ([] @ [telemetry])))
               | Inherited \<Rightarrow> Inl TypeError)
      else Inr prev)"

text \<open>The array under an own key of the state, \<open>[]\<close> when the state has no such key.\<close>

definition stored :: "TelemetryState \<Rightarrow> string \<Rightarrow> TelemetryData list" where
  "stored st d = (case st d of None \<Rightarrow> [] | Some l \<Rightarrow> l)"

text \<open>
  The messages of a connection handled in arrival order. An exception escapes the state
  update and ends the run: no state comes out of it.
\<close>

fun receive :: "Message list \<Rightarrow> TelemetryState \<Rightarrow> exception + TelemetryState" where
  "receive [] st = Inr st"
| "receive (m # ms) st =
     (case onmessage m st of Inl e \<Rightarrow> Inl e | Inr st' \<Rightarrow> receive ms st')"

text \<open>From the initial state \<open>{}\<close>.\<close>

definition receive_all :: "Message list \<Rightarrow> exception + TelemetryState" where
  "receive_all messages = receive messages Map.empty"

text \<open>The samples received for one drone, in arrival order.\<close>

definition samples_of :: "string \<Rightarrow> Message list \<Rightarrow> TelemetryData list" where
  "samples_of d messages =
     filter (\<lambda>t. TelemetryData.drone_id t = d)
       (map data (filter (\<lambda>m. msg_type m = ''telemetry'') messages))"

text \<open>Whether a message names a drone by a name every object inherits.\<close>

definition names_inherited :: "Message \<Rightarrow> bool" where
  "names_inherited m =
     (msg_type m = ''telemetry'' \<and> TelemetryData.drone_id (data m) \<in> set object_prototype_names)"

section \<open>Submitting a flight\<close>

definition API_BASE :: string where
  "API_BASE = ''http://localhost:8000/api''"

text \<open>The three alert texts of \<open>createFlight\<close> (Russian, as UTF-8 bytes).\<close>

definition alert_min_waypoints :: string where
  "alert_min_waypoints = [CHR 0xD0, CHR 0x9D, CHR 0xD0, CHR 0xB5, CHR 0xD0, CHR 0xBE, CHR 0xD0, CHR 0xB1, CHR 0xD1, CHR 0x85, CHR 0xD0, CHR 0xBE, CHR 0xD0, CHR 0xB4, CHR 0xD0, CHR 0xB8, CHR 0xD0, CHR 0xBC, CHR 0xD0, CHR 0xBE] @ '' '' @ [CHR 0xD1, CHR 0x83, CHR 0xD0, CHR 0xBA, CHR 0xD0, CHR 0xB0, CHR 0xD0, CHR 0xB7, CHR 0xD0, CHR 0xB0, CHR 0xD1, CHR 0x82, CHR 0xD1, CHR 0x8C] @ '' '' @ [CHR 0xD0, CHR 0xBC, CHR 0xD0, CHR 0xB8, CHR 0xD0, CHR 0xBD, CHR 0xD0, CHR 0xB8, CHR 0xD0, CHR 0xBC, CHR 0xD1, CHR 0x83, CHR 0xD0, CHR 0xBC] @ '' 2 '' @ [CHR 0xD1, CHR 0x82, CHR 0xD0, CHR 0xBE, CHR 0xD1, CHR 0x87, CHR 0xD0, CHR 0xBA, CHR 0xD0, CHR 0xB8] @ '' '' @ [CHR 0xD0, CHR 0xBC, CHR 0xD0, CHR 0xB0, CHR 0xD1, CHR 0x80, CHR 0xD1, CHR 0x88, CHR 0xD1, CHR 0x80, CHR 0xD1, CHR 0x83, CHR 0xD1, CHR 0x82, CHR 0xD0, CHR 0xB0]"

definition alert_rejected :: string where
  "alert_rejected = [CHR 0xD0, CHR 0x9F, CHR 0xD0, CHR 0xBE, CHR 0xD0, CHR 0xBB, CHR 0xD0, CHR 0xB5, CHR 0xD1, CHR 0x82] @ '' '' @ [CHR 0xD0, CHR 0xBE, CHR 0xD1, CHR 0x82, CHR 0xD0, CHR 0xBA, CHR 0xD0, CHR 0xBB, CHR 0xD0, CHR 0xBE, CHR 0xD0, CHR 0xBD, CHR 0xD0, CHR 0xB5, CHR 0xD0, CHR 0xBD] @ ''! '' @ [CHR 0xD0, CHR 0x9D, CHR 0xD0, CHR 0xB0, CHR 0xD1, CHR 0x80, CHR 0xD1, CHR 0x83, CHR 0xD1, CHR 0x88, CHR 0xD0, CHR 0xB5, CHR 0xD0, CHR 0xBD, CHR 0xD0, CHR 0xB8, CHR 0xD0, CHR 0xB5] @ '' '' @ [CHR 0xD0, CHR 0xB7, CHR 0xD0, CHR 0xB0, CHR 0xD0, CHR 0xBF, CHR 0xD1, CHR 0x80, CHR 0xD0, CHR 0xB5, CHR 0xD1, CHR 0x82, CHR 0xD0, CHR 0xBD, CHR 0xD1, CHR 0x8B, CHR 0xD1, CHR 0x85] @ '' '' @ [CHR 0xD0, CHR 0xB7, CHR 0xD0, CHR 0xBE, CHR 0xD0, CHR 0xBD] @ '': ''"

definition alert_approved :: string where
  "alert_approved = [CHR 0xD0, CHR 0x9F, CHR 0xD0, CHR 0xBE, CHR 0xD0, CHR 0xBB, CHR 0xD0, CHR 0xB5, CHR 0xD1, CHR 0x82] @ '' '' @ [CHR 0xD0, CHR 0xBE, CHR 0xD0, CHR 0xB4, CHR 0xD0, CHR 0xBE, CHR 0xD0, CHR 0xB1, CHR 0xD1, CHR 0x80, CHR 0xD0, CHR 0xB5, CHR 0xD0, CHR 0xBD] @ ''!''"

text \<open>\<open>Array.prototype.join\<close> on an array of strings.\<close>

fun join :: "string \<Rightarrow> string list \<Rightarrow> string" where
  "join sep [] = []"
| "join sep [x] = x"
| "join sep (x # y # ys) = x @ sep @ join sep (y # ys)"

text \<open>
  What a handler does, in order: the calls it makes on the event, the window, the network
  and the component state. \<open>Post url body\<close> is the flight-creation request;
  \<open>ConsoleError\<close> is the \<open>catch\<close> branch.
\<close>

datatype effect =
    PreventDefault
  | Alert string
  | Post string FlightForm
  | SetFlightForm FlightForm
  | LoadData
  | ConsoleError string

text \<open>A response of \<open>fetch\<close>: its \<open>ok\<close> flag and its parsed body (\<open>None\<close> when \<open>json()\<close> fails).\<close>

record Response =
  ok :: bool
  json :: "Flight option"

text \<open>The form \<open>createFlight\<close> resets to after a successful response.\<close>

definition empty_form :: FlightForm where
  "empty_form = \<lparr>FlightForm.drone_id = [], pilot_id = [], start_time = [], end_time = [],
                  altitude = Fin 50, description = [], waypoints = []\<rparr>"

text \<open>
  \<open>createFlight\<close>. Its environment is a parameter: \<open>toISOString s\<close> is
  \<open>new Date(s).toISOString()\<close>, \<open>None\<close> when it throws on an invalid date, and
  \<open>fetch body\<close> is the server's answer to the request, \<open>None\<close> when the request fails.
  The result is the list of effects in the order they happen. In \<open>if (newFlight.violations)\<close>
  an array is truthy whatever its length; only an absent field is falsy.
\<close>

definition createFlight ::
  "(string \<Rightarrow> string option) \<Rightarrow> (FlightForm \<Rightarrow> Response option) \<Rightarrow> FlightForm \<Rightarrow> effect list" where
  "createFlight toISOString fetch flightForm =
     PreventDefault #
     (if length (FlightForm.waypoints flightForm) < 2 then [Alert alert_min_waypoints]
      else
        (case toISOString (FlightForm.start_time flightForm) of
           None \<Rightarrow> [ConsoleError ''Error creating flight:'']
         | Some s \<Rightarrow>
        (case toISOString (FlightForm.end_time flightForm) of
           None \<Rightarrow> [ConsoleError ''Error creating flight:'']
         | Some e \<Rightarrow>
           let body = flightForm\<lparr>FlightForm.start_time := s, FlightForm.end_time := e\<rparr>
           in Post (API_BASE @ ''/flights/'') body #
              (case fetch body of
                 None \<Rightarrow> [ConsoleError ''Error creating flight:'']
               | Some response \<Rightarrow>
                   if ok response then
                     (case json response of
                        None \<Rightarrow> [ConsoleError ''Error creating flight:'']
                      | Some newFlight \<Rightarrow>
                          [Alert (case violations newFlight of
                                    Some vs \<Rightarrow> alert_rejected @ join '', '' vs
                                  | None \<Rightarrow> alert_approved),
                           SetFlightForm empty_form,
                           LoadData])
                   else []))))"

text \<open>Whether a list of effects sends a flight-creation request.\<close>

fun is_post :: "effect \<Rightarrow> bool" where
  "is_post (Post url body) = True"
| "is_post _ = False"

section \<open>The flight list\<close>

text \<open>
  The right-hand cell of one entry of the flight list: the status badge and, under
  \<open>flight.status === "approved"\<close>, the button whose click calls \<open>simulateFlight(flight.id)\<close>.
\<close>

datatype action = SimulateFlight string

record StatusCell =
  className :: string
  label :: string
  simulate_button :: "action option"

definition renderStatusCell :: "Flight \<Rightarrow> StatusCell" where
  "renderStatusCell flight =
     \<lparr>className = ''px-2 py-1 rounded text-sm '' @ getStatusColor (status flight),
      label = getStatusText (status flight),
      simulate_button =
        (if status flight = ''approved'' then Some (SimulateFlight (Flight.id flight)) else None)\<rparr>"

definition renderFlightList :: "Flight list \<Rightarrow> StatusCell list" where
  "renderFlightList flights = map renderStatusCell flights"

section \<open>The server side: geofence check and flight registry\<close>

text \<open>
  The server is not part of the sources at hand: only the client that calls it is. Its
  components below follow sections 3 and 4 of the specification, with coordinates and
  altitudes as exact reals and times as integers.
\<close>

text \<open>Modelled from the spec: RestrictedZone, a named rectangle in latitude and longitude.\<close>

record RestrictedZone =
  name :: string
  north :: real
  south :: real
  east :: real
  west :: real

text \<open>Modelled from the spec: Waypoint, a (latitude, longitude) pair.\<close>

record Waypoint =
  latitude :: real
  longitude :: real

text \<open>Modelled from the spec: a point lies within the rectangle, bounds inclusive (GeofenceEngine).\<close>

definition inside :: "Waypoint \<Rightarrow> RestrictedZone \<Rightarrow> bool" where
  "inside p z = (south z \<le> latitude p \<and> latitude p \<le> north z
                 \<and> west z \<le> longitude p \<and> longitude p \<le> east z)"

text \<open>
  Modelled from the spec: one step of the parametric clipping test of GeofenceEngine. The
  half-plane is \<open>p * t \<le> q\<close>; \<open>None\<close> is a rejected segment, otherwise the surviving
  interval \<open>[t_enter, t_exit]\<close> is narrowed.
\<close>

definition clip :: "real \<Rightarrow> real \<Rightarrow> (real \<times> real) option \<Rightarrow> (real \<times> real) option" where
  "clip p q interval =
     (case interval of
        None \<Rightarrow> None
      | Some (t_enter, t_exit) \<Rightarrow>
          if p = 0 then (if q < 0 then None else Some (t_enter, t_exit))
          else if p < 0 then Some (max t_enter (q / p), t_exit)
          else Some (t_enter, min t_exit (q / p)))"

text \<open>
  Modelled from the spec: the segment from \<open>a\<close> to \<open>b\<close> clipped against the four
  half-planes of the rectangle, starting from the parameter interval \<open>[0, 1]\<close> of the segment
  (GeofenceEngine).
\<close>

definition clip_segment :: "Waypoint \<Rightarrow> Waypoint \<Rightarrow> RestrictedZone \<Rightarrow> (real \<times> real) option" where
  "clip_segment a b z =
     (let dlat = latitude b - latitude a; dlng = longitude b - longitude a
      in clip dlat (north z - latitude a)
           (clip (- dlat) (latitude a - south z)
              (clip dlng (east z - longitude a)
                 (clip (- dlng) (longitude a - west z) (Some (0, 1))))))"

text \<open>
  Modelled from the spec: an intersection exists iff \<open>t_enter \<le> t_exit\<close> after clipping
  against all four planes (GeofenceEngine).
\<close>

definition crosses :: "Waypoint \<Rightarrow> Waypoint \<Rightarrow> RestrictedZone \<Rightarrow> bool" where
  "crosses a b z =
     (case clip_segment a b z of None \<Rightarrow> False | Some (t_enter, t_exit) \<Rightarrow> t_enter \<le> t_exit)"

text \<open>
  Modelled from the spec: the segment-rectangle test of GeofenceEngine, (a) an endpoint
  within the rectangle or (b) the clipping test.
\<close>

definition segment_intersects :: "Waypoint \<Rightarrow> Waypoint \<Rightarrow> RestrictedZone \<Rightarrow> bool" where
  "segment_intersects a b z = (inside a z \<or> inside b z \<or> crosses a b z)"

text \<open>Modelled from the spec: the consecutive waypoint pairs of a route (GeofenceEngine).\<close>

fun segments :: "'a list \<Rightarrow> ('a \<times> 'a) list" where
  "segments (a # b # rest) = (a, b) # segments (b # rest)"
| "segments _ = []"

text \<open>
  Modelled from the spec: \<open>checkViolations\<close> of GeofenceEngine, the set of identifiers of
  the zones that some segment of the route intersects. The zones come as a list.
\<close>

definition checkViolations :: "Waypoint list \<Rightarrow> RestrictedZone list \<Rightarrow> string set" where
  "checkViolations route zones =
     set (map name
       (filter (\<lambda>z. list_ex (\<lambda>(a, b). segment_intersects a b z) (segments route)) zones))"

text \<open>Modelled from the spec: the status of a Flight (FlightRegistry).\<close>

datatype Status = pending | approved | rejected | active | completed

text \<open>Modelled from the spec: FlightPlan, the request that FlightAuthorizer receives.\<close>

record FlightPlan =
  drone_ref :: string
  pilot_ref :: string
  window_start :: int
  window_end :: int
  cruise_altitude :: real
  route :: "Waypoint list"
  free_text :: "string option"

text \<open>
  Modelled from the spec: Flight as FlightRegistry owns it, a FlightPlan plus an identifier,
  a status and a violations set.
\<close>

record RegisteredFlight = FlightPlan +
  ident :: nat
  state :: Status
  violated :: "string set"

type_synonym FlightRegistry = "RegisteredFlight list"

text \<open>
  Modelled from the spec: the process-wide configuration FlightAuthorizer reads: the loaded
  zones, the resolvable drone and pilot references, and the altitude bounds.
\<close>

record Airspace =
  zones :: "RestrictedZone list"
  known_drones :: "string list"
  known_pilots :: "string list"
  altitude_min :: real
  altitude_max :: real

text \<open>Modelled from the spec: the failures of section 7 that these operations report.\<close>

datatype failure = ValidationFailure | StateConflict

text \<open>Modelled from the spec: the preconditions of \<open>FlightAuthorizer.submit\<close>.\<close>

definition valid_plan :: "Airspace \<Rightarrow> FlightPlan \<Rightarrow> bool" where
  "valid_plan env plan =
     (2 \<le> length (route plan) \<and> window_start plan < window_end plan
      \<and> altitude_min env \<le> cruise_altitude plan \<and> cruise_altitude plan \<le> altitude_max env
      \<and> drone_ref plan \<in> set (known_drones env) \<and> pilot_ref plan \<in> set (known_pilots env))"

text \<open>
  Modelled from the spec: FlightRegistry creating a flight, with a fresh identifier (its
  position in the registry), status pending and empty violations.
\<close>

definition create :: "FlightPlan \<Rightarrow> FlightRegistry \<Rightarrow> FlightRegistry" where
  "create plan reg =
     reg @ [FlightPlan.extend plan
              (RegisteredFlight.fields (length reg) pending {})]"

text \<open>
  Modelled from the spec: FlightAuthorizer committing its decision for a pending flight:
  rejected with the returned violation set if it is non-empty, else approved.
\<close>

definition decide :: "nat \<Rightarrow> string set \<Rightarrow> FlightRegistry \<Rightarrow> FlightRegistry" where
  "decide i found reg =
     (if i < length reg \<and> state (reg ! i) = pending
      then reg[i := (reg ! i)\<lparr>state := (if found \<noteq> {} then rejected else approved),
                               violated := found\<rparr>]
      else reg)"

text \<open>
  Modelled from the spec: \<open>FlightAuthorizer.submit\<close>. A plan that fails validation creates
  no flight.
\<close>

definition submit :: "Airspace \<Rightarrow> FlightPlan \<Rightarrow> FlightRegistry \<Rightarrow> failure + FlightRegistry" where
  "submit env plan reg =
     (if \<not> valid_plan env plan then Inl ValidationFailure
      else Inr (decide (length reg) (checkViolations (route plan) (zones env)) (create plan reg)))"

text \<open>
  Modelled from the spec: the simulation trigger (\<open>TelemetrySimulator.start\<close>), approved to
  active, a state conflict with no mutation otherwise.
\<close>

definition start_simulation :: "nat \<Rightarrow> FlightRegistry \<Rightarrow> failure + FlightRegistry" where
  "start_simulation i reg =
     (if i < length reg \<and> state (reg ! i) = approved
      then Inr (reg[i := (reg ! i)\<lparr>state := active\<rparr>])
      else Inl StateConflict)"

text \<open>Modelled from the spec: TelemetrySimulator completing a simulation, active to completed.\<close>

definition finish_simulation :: "nat \<Rightarrow> FlightRegistry \<Rightarrow> failure + FlightRegistry" where
  "finish_simulation i reg =
     (if i < length reg \<and> state (reg ! i) = active
      then Inr (reg[i := (reg ! i)\<lparr>state := completed\<rparr>])
      else Inl StateConflict)"

text \<open>
  Modelled from the spec: the three operations that write to FlightRegistry, and a history of
  them applied from a registry; a failed operation leaves the registry as it was.
\<close>

datatype request = Submit FlightPlan | Simulate nat | Arrive nat

definition handle :: "Airspace \<Rightarrow> request \<Rightarrow> FlightRegistry \<Rightarrow> failure + FlightRegistry" where
  "handle env r reg =
     (case r of Submit plan \<Rightarrow> submit env plan reg
              | Simulate i \<Rightarrow> start_simulation i reg
              | Arrive i \<Rightarrow> finish_simulation i reg)"

fun serve :: "Airspace \<Rightarrow> request list \<Rightarrow> FlightRegistry \<Rightarrow> FlightRegistry" where
  "serve env [] reg = reg"
| "serve env (r # rs) reg =
     (case handle env r reg of Inl e \<Rightarrow> serve env rs reg | Inr reg' \<Rightarrow> serve env rs reg')"

section \<open>Notions used in the proofs\<close>

text \<open>The parameters in a clipping interval, and the point of a segment at a parameter.\<close>

definition params :: "(real \<times> real) option \<Rightarrow> real set" where
  "params interval = (case interval of None \<Rightarrow> {} | Some (lo, hi) \<Rightarrow> {t. lo \<le> t \<and> t \<le> hi})"

definition along :: "Waypoint \<Rightarrow> Waypoint \<Rightarrow> real \<Rightarrow> Waypoint" where
  "along a b t = \<lparr>latitude = latitude a + t * (latitude b - latitude a),
                  longitude = longitude a + t * (longitude b - longitude a)\<rparr>"

text \<open>The invariant of a registered flight: violations are there exactly when it is rejected.\<close>

definition consistent :: "RegisteredFlight \<Rightarrow> bool" where
  "consistent f = ((violated f \<noteq> {}) = (state f = rejected))"

section \<open>Sample inputs\<close>

definition form3 :: FlightForm where
  "form3 = \<lparr>FlightForm.drone_id = ''d1'', pilot_id = ''p1'', start_time = ''2025-01-01T10:00'',
     end_time = ''2025-01-01T11:00'', altitude = Fin 50, description = [],
     waypoints = [\<lparr>LatLng.lat = Fin 51, lng = Fin 71\<rparr>, \<lparr>LatLng.lat = Fin 52, lng = Fin 72\<rparr>,
                  \<lparr>LatLng.lat = Fin 53, lng = Fin 73\<rparr>]\<rparr>"

definition form1 :: FlightForm where
  "form1 = \<lparr>FlightForm.drone_id = ''d1'', pilot_id = ''p1'', start_time = ''2025-01-01T10:00'',
     end_time = ''2025-01-01T11:00'', altitude = Fin 50, description = [],
     waypoints = [\<lparr>LatLng.lat = Fin 51, lng = Fin 71\<rparr>]\<rparr>"

text \<open>A response body with status approved and an empty violations array.\<close>

definition flight_approved_empty :: Flight where
  "flight_approved_empty = \<lparr>Flight.id = ''f1'', drone_id = ''d1'', pilot_id = ''p1'',
     start_time = ''2025-01-01T10:00:00.000Z'', end_time = ''2025-01-01T11:00:00.000Z'',
     altitude = Fin 50,
     waypoints = [\<lparr>LatLng.lat = Fin 51, lng = Fin 71\<rparr>, \<lparr>LatLng.lat = Fin 52, lng = Fin 72\<rparr>,
                  \<lparr>LatLng.lat = Fin 53, lng = Fin 73\<rparr>],
     description = Some [], status = ''approved'', created_at = ''2025-01-01T09:00:00.000Z'',
     violations = Some []\<rparr>"

definition flight_rejected :: Flight where
  "flight_rejected = flight_approved_empty\<lparr>Flight.id := ''f2'', status := ''rejected'',
     violations := Some [''Airport'']\<rparr>"

text \<open>\<open>toISOString\<close> on the values of a \<open>datetime-local\<close> input, in a UTC environment.\<close>

definition iso_utc :: "string \<Rightarrow> string option" where
  "iso_utc s = (if length s = 16 then Some (s @ '':00.000Z'') else None)"

definition parse_sample :: "string \<Rightarrow> number" where
  "parse_sample s =
     (if s = ''0'' then Fin 0 else if s = ''51.5'' then Fin (103 / 2)
      else if s = ''71'' then Fin 71 else NaN)"

definition sample :: "string \<Rightarrow> string \<Rightarrow> TelemetryData" where
  "sample d ts = \<lparr>TelemetryData.drone_id = d, lat = Fin 51, lng = Fin 71, altitude = Fin 50,
                  speed = Fin 10, battery = Fin 90, timestamp = ts\<rparr>"

definition msg_constructor :: Message where
  "msg_constructor = \<lparr>msg_type = ''telemetry'', data = sample ''constructor'' ''2025-01-01T10:00:01Z''\<rparr>"

definition msg_toString :: Message where
  "msg_toString = \<lparr>msg_type = ''telemetry'', data = sample ''toString'' ''2025-01-01T10:00:02Z''\<rparr>"

definition state1 :: TelemetryState where
  "state1 = [''d1'' \<mapsto> [sample ''d1'' ''2025-01-01T10:00:01Z''],
             ''d2'' \<mapsto> [sample ''d2'' ''2025-01-01T10:00:01Z'']]"

text \<open>The two example zones and routes of section 8 of the specification.\<close>

definition zone_a :: RestrictedZone where
  "zone_a = \<lparr>name = ''A'', north = 52, south = 51, east = 72, west = 71\<rparr>"

definition zone_b :: RestrictedZone where
  "zone_b = \<lparr>name = ''B'', north = 51.2, south = 51.1, east = 71.5, west = 71.4\<rparr>"

definition airspace_sample :: Airspace where
  "airspace_sample = \<lparr>zones = [zone_b], known_drones = [''d1''], known_pilots = [''p1''],
                        altitude_min = 1, altitude_max = 120\<rparr>"

definition plan_crossing :: FlightPlan where
  "plan_crossing = \<lparr>drone_ref = ''d1'', pilot_ref = ''p1'', window_start = 0, window_end = 3600,
      cruise_altitude = 50,
      route = [\<lparr>latitude = 51.0, longitude = 71.35\<rparr>, \<lparr>latitude = 51.3, longitude = 71.55\<rparr>],
      free_text = None\<rparr>"

definition plan_clear :: FlightPlan where
  "plan_clear = plan_crossing\<lparr>route := [\<lparr>latitude = 40, longitude = 40\<rparr>, \<lparr>latitude = 41, longitude = 41\<rparr>]\<rparr>"

definition registry_sample :: FlightRegistry where
  "registry_sample = serve airspace_sample [Submit plan_crossing, Submit plan_clear, Simulate 0] []"


section \<open>Properties of the status labels\<close>

text \<open>
  Claim C10. \<open>getStatusText\<close> and \<open>getStatusColor\<close> return a value for every string, and
  for a string that is none of pending, approved, rejected, active, completed the text is
  the string itself and the colour is \<open>text-yellow-600\<close>, the colour of \<open>pending\<close>.
\<close>

theorem status_labels_default:
  "(s \<notin> {''pending'', ''approved'', ''rejected'', ''active'', ''completed''} \<longrightarrow>
      getStatusText s = s \<and> getStatusColor s = ''text-yellow-600'')
   \<and> getStatusColor ''pending'' = ''text-yellow-600''"
  by (simp add: getStatusText_def getStatusColor_def)

theorem status_labels_default_witness:
  "''archived'' \<notin> {''pending'', ''approved'', ''rejected'', ''active'', ''completed''}
   \<and> getStatusText ''archived'' = ''archived''
   \<and> getStatusColor ''archived'' = ''text-yellow-600''"
  using status_labels_default [of "''archived''"] by simp

section \<open>Properties of the waypoint list\<close>

text \<open>
  Claim C8. A click on the add-waypoint button appends a waypoint only when both parsed
  coordinates are truthy; when the parsed latitude or longitude is \<open>0\<close> or \<open>NaN\<close> the
  inputs and the form are left as they were, so a point on the equator or on the prime
  meridian cannot be added.
\<close>

theorem addWaypointClick_needs_truthy:
  "(truthy (parseFloat (lat_value inputs)) \<and> truthy (parseFloat (lng_value inputs)) \<longrightarrow>
      FlightForm.waypoints (snd (addWaypointClick parseFloat (inputs, form)))
        = FlightForm.waypoints form
            @ [\<lparr>LatLng.lat = parseFloat (lat_value inputs), lng = parseFloat (lng_value inputs)\<rparr>])
   \<and> (FlightForm.waypoints (snd (addWaypointClick parseFloat (inputs, form)))
        \<noteq> FlightForm.waypoints form \<longrightarrow>
      truthy (parseFloat (lat_value inputs)) \<and> truthy (parseFloat (lng_value inputs)))
   \<and> (parseFloat (lat_value inputs) \<in> {Fin 0, NaN} \<or> parseFloat (lng_value inputs) \<in> {Fin 0, NaN} \<longrightarrow>
      addWaypointClick parseFloat (inputs, form) = (inputs, form))"
  by (auto simp: addWaypointClick_def addWaypoint_def Let_def)

theorem addWaypointClick_needs_truthy_witness:
  "truthy (parse_sample ''51.5'') \<and> truthy (parse_sample ''71'')
   \<and> FlightForm.waypoints
       (snd (addWaypointClick parse_sample (\<lparr>lat_value = ''51.5'', lng_value = ''71''\<rparr>, empty_form)))
       = [\<lparr>LatLng.lat = Fin (103 / 2), lng = Fin 71\<rparr>]
   \<and> parse_sample ''0'' \<in> {Fin 0, NaN}
   \<and> addWaypointClick parse_sample (\<lparr>lat_value = ''0'', lng_value = ''71''\<rparr>, form3)
       = (\<lparr>lat_value = ''0'', lng_value = ''71''\<rparr>, form3)
   \<and> parse_sample [] \<in> {Fin 0, NaN}
   \<and> addWaypointClick parse_sample (\<lparr>lat_value = ''51.5'', lng_value = []\<rparr>, form3)
       = (\<lparr>lat_value = ''51.5'', lng_value = []\<rparr>, form3)"
proof -
  have p: "parse_sample ''51.5'' = Fin (103 / 2)" "parse_sample ''71'' = Fin 71"
    "parse_sample ''0'' = Fin 0" "parse_sample [] = NaN"
    by (simp_all add: parse_sample_def)
  show ?thesis
    using addWaypointClick_needs_truthy
            [of parse_sample "\<lparr>lat_value = ''51.5'', lng_value = ''71''\<rparr>" empty_form]
          addWaypointClick_needs_truthy
            [of parse_sample "\<lparr>lat_value = ''0'', lng_value = ''71''\<rparr>" form3]
          addWaypointClick_needs_truthy
            [of parse_sample "\<lparr>lat_value = ''51.5'', lng_value = []\<rparr>" form3]
    by (simp add: p empty_form_def)
qed

text \<open>Filtering on the position alone keeps the elements at the accepted positions.\<close>

lemma filter_indexed_nths: "filter_indexed (\<lambda>_ i. P i) xs = nths xs {i. P i}"
  by (simp add: filter_indexed_def nths_def case_prod_unfold)

lemma nths_remove_one: "nths xs {i. i \<noteq> k} = take k xs @ drop (Suc k) xs"
proof (induction xs arbitrary: k)
  case Nil
  then show ?case by simp
next
  case (Cons x xs)
  show ?case
  proof (cases k)
    case 0
    then show ?thesis by (simp add: nths_Cons nths_all)
  next
    case (Suc j)
    then show ?thesis using Cons.IH [of j] by (simp add: nths_Cons)
  qed
qed

lemma nths_keep_all: "(\<forall>i < length xs. i \<in> A) \<Longrightarrow> nths xs A = xs"
  by (rule nths_all) simp

text \<open>
  Claim C9. \<open>removeWaypoint\<close> at a position of the list gives the list without the element
  at that position, the others in their order; at any other number the list is unchanged;
  and the other fields of the form are unchanged in every case.
\<close>

theorem removeWaypoint_removes_position:
  "(k < length (FlightForm.waypoints f) \<longrightarrow>
      FlightForm.waypoints (removeWaypoint (Fin (real k)) f)
        = take k (FlightForm.waypoints f) @ drop (Suc k) (FlightForm.waypoints f))
   \<and> ((\<forall>i < length (FlightForm.waypoints f). index \<noteq> Fin (real i)) \<longrightarrow>
      FlightForm.waypoints (removeWaypoint index f) = FlightForm.waypoints f)
   \<and> FlightForm.drone_id (removeWaypoint index f) = FlightForm.drone_id f
   \<and> FlightForm.pilot_id (removeWaypoint index f) = FlightForm.pilot_id f
   \<and> FlightForm.start_time (removeWaypoint index f) = FlightForm.start_time f
   \<and> FlightForm.end_time (removeWaypoint index f) = FlightForm.end_time f
   \<and> FlightForm.altitude (removeWaypoint index f) = FlightForm.altitude f
   \<and> FlightForm.description (removeWaypoint index f) = FlightForm.description f"
proof -
  have rm: "FlightForm.waypoints (removeWaypoint n f)
              = nths (FlightForm.waypoints f) {i. n \<noteq> Fin (real i)}" for n
    by (simp add: removeWaypoint_def strict_neq_index_def filter_indexed_nths)
  have "{i. Fin (real k) \<noteq> Fin (real i)} = {i. i \<noteq> k}" by auto
  then have a: "FlightForm.waypoints (removeWaypoint (Fin (real k)) f)
        = take k (FlightForm.waypoints f) @ drop (Suc k) (FlightForm.waypoints f)"
    by (simp add: rm nths_remove_one)
  have b: "(\<forall>i < length (FlightForm.waypoints f). index \<noteq> Fin (real i)) \<longrightarrow>
      FlightForm.waypoints (removeWaypoint index f) = FlightForm.waypoints f"
    by (simp add: rm nths_keep_all)
  show ?thesis using a b by (simp add: removeWaypoint_def)
qed

theorem removeWaypoint_removes_position_witness:
  "(1::nat) < length (FlightForm.waypoints form3)
   \<and> FlightForm.waypoints (removeWaypoint (Fin (real 1)) form3)
       = [\<lparr>LatLng.lat = Fin 51, lng = Fin 71\<rparr>, \<lparr>LatLng.lat = Fin 53, lng = Fin 73\<rparr>]
   \<and> length (FlightForm.waypoints form3) = 3
   \<and> FlightForm.waypoints (removeWaypoint (Fin 7) form3) = FlightForm.waypoints form3
   \<and> FlightForm.waypoints (removeWaypoint NaN form3) = FlightForm.waypoints form3"
proof -
  have len: "length (FlightForm.waypoints form3) = 3" by (simp add: form3_def)
  have far: "\<forall>i < length (FlightForm.waypoints form3). Fin 7 \<noteq> Fin (real i)"
    by (simp add: len)
  have one: "(1::nat) < length (FlightForm.waypoints form3)" by (simp add: len)
  show ?thesis
    using removeWaypoint_removes_position [of 1 form3 "Fin 7"]
          removeWaypoint_removes_position [of 1 form3 NaN] far one
    by (simp add: form3_def)
qed

section \<open>Properties of the telemetry state\<close>

lemma slice_last_append:
  "slice_last n (slice_last n xs @ ys) = slice_last n (xs @ ys)"
  by (cases "length xs \<le> n") (auto simp: slice_last_def add.commute)

lemma samples_of_Cons:
  "samples_of d (m # ms) =
     (if msg_type m = ''telemetry'' \<and> TelemetryData.drone_id (data m) = d then [data m] else [])
     @ samples_of d ms"
  by (simp add: samples_of_def)

text \<open>
  A telemetry message whose drone identifier is not an inherited name puts its sample at
  the end of that drone's list, cut to the last 50; a message of another type leaves the
  state; a telemetry message with an inherited name throws, unless the state has the name
  as a key of its own.
\<close>

lemma onmessage_own_key:
  assumes "msg_type m = ''telemetry''"
    and "TelemetryData.drone_id (data m) \<notin> set object_prototype_names"
  shows "onmessage m prev =
           Inr (prev(TelemetryData.drone_id (data m) \<mapsto>
                  slice_last 50 (stored prev (TelemetryData.drone_id (data m)) @ [data m])))"
  using assms
  by (simp add: onmessage_def get_property_def stored_def Let_def split: option.splits)

lemma onmessage_other_type: "msg_type m \<noteq> ''telemetry'' \<Longrightarrow> onmessage m prev = Inr prev"
  by (simp add: onmessage_def)

lemma onmessage_inherited:
  assumes "names_inherited m" and "prev (TelemetryData.drone_id (data m)) = None"
  shows "onmessage m prev = Inl TypeError"
  using assms by (simp add: onmessage_def names_inherited_def get_property_def Let_def)

text \<open>
  A run of messages none of which uses an inherited name: it ends in a state, and the list
  of each drone is the last 50 of what the starting state had followed by the samples
  received for it, in arrival order.
\<close>

lemma receive_window:
  assumes "\<forall>m \<in> set ms. \<not> names_inherited m"
  shows "\<exists>st. receive ms st0 = Inr st
           \<and> (\<forall>d. st d = (if samples_of d ms = [] then st0 d
                          else Some (slice_last 50 (stored st0 d @ samples_of d ms))))"
  using assms
proof (induction ms arbitrary: st0)
  case Nil
  then show ?case by (simp add: samples_of_def)
next
  case (Cons m ms)
  show ?case
  proof (cases "msg_type m = ''telemetry''")
    case False
    then have step: "onmessage m st0 = Inr st0" by (rule onmessage_other_type)
    from Cons.IH [of st0] Cons.prems obtain st where
      st: "receive ms st0 = Inr st"
          "\<forall>d. st d = (if samples_of d ms = [] then st0 d
                        else Some (slice_last 50 (stored st0 d @ samples_of d ms)))"
      by auto
    from st False show ?thesis by (simp add: step samples_of_Cons)
  next
    case True
    define k where "k = TelemetryData.drone_id (data m)"
    define st1 where "st1 = st0(k \<mapsto> slice_last 50 (stored st0 k @ [data m]))"
    from True Cons.prems have own: "TelemetryData.drone_id (data m) \<notin> set object_prototype_names"
      by (simp add: names_inherited_def)
    have step: "onmessage m st0 = Inr st1"
      unfolding st1_def k_def by (rule onmessage_own_key [OF True own])
    from Cons.IH [of st1] Cons.prems obtain st where
      st: "receive ms st1 = Inr st"
          "\<forall>d. st d = (if samples_of d ms = [] then st1 d
                        else Some (slice_last 50 (stored st1 d @ samples_of d ms)))"
      by auto
    have "st d = (if samples_of d (m # ms) = [] then st0 d
                  else Some (slice_last 50 (stored st0 d @ samples_of d (m # ms))))" for d
    proof (cases "d = k")
      case other: False
      then have "samples_of d (m # ms) = samples_of d ms" "st1 d = st0 d" "stored st1 d = stored st0 d"
        by (auto simp: samples_of_Cons k_def st1_def stored_def)
      with st(2) show ?thesis by simp
    next
      case same: True
      have s: "samples_of k (m # ms) = data m # samples_of k ms"
        by (simp add: samples_of_Cons True k_def)
      have l: "stored st1 k = slice_last 50 (stored st0 k @ [data m])"
        by (simp add: st1_def stored_def)
      show ?thesis
      proof (cases "samples_of k ms = []")
        case True
        with st(2) have "st k = st1 k" by simp
        then show ?thesis by (simp add: same s True st1_def)
      next
        case False
        with st(2) have "st k = Some (slice_last 50 (stored st1 k @ samples_of k ms))" by simp
        then show ?thesis by (simp add: same s l slice_last_append)
      qed
    qed
    with st(1) show ?thesis by (simp add: step)
  qed
qed

lemma receive_all_window:
  assumes "\<forall>m \<in> set ms. \<not> names_inherited m"
  shows "\<exists>st. receive_all ms = Inr st
           \<and> (\<forall>d. stored st d = drop (length (samples_of d ms) - 50) (samples_of d ms)
                  \<and> length (stored st d) = min (length (samples_of d ms)) 50
                  \<and> (st d = None) = (samples_of d ms = []))"
proof -
  from receive_window [OF assms, of Map.empty] obtain st where
    st: "receive ms Map.empty = Inr st"
        "\<forall>d. st d = (if samples_of d ms = [] then None
                      else Some (slice_last 50 (stored Map.empty d @ samples_of d ms)))"
    by auto
  have "stored st d = drop (length (samples_of d ms) - 50) (samples_of d ms)
        \<and> length (stored st d) = min (length (samples_of d ms)) 50
        \<and> (st d = None) = (samples_of d ms = [])" for d
    using st(2) by (auto simp: stored_def slice_last_def)
  with st(1) show ?thesis unfolding receive_all_def by blast
qed

text \<open>
  Claim C5. The stored list of each drone should be the last \<open>min n 50\<close> of its \<open>n\<close>
  samples. For a drone identifier that every object inherits, here \<open>constructor\<close>, one
  sample is received and the update throws: no list holds the sample.
\<close>

theorem receive_all_inherited_name_throws:
  "samples_of ''constructor'' [msg_constructor] = [sample ''constructor'' ''2025-01-01T10:00:01Z'']
   \<and> receive_all [msg_constructor] = Inl TypeError"
  by (simp add: samples_of_def receive_all_def onmessage_def get_property_def
        object_prototype_names_def msg_constructor_def sample_def)

text \<open>
  Claim C6. A telemetry message should put its sample at the end of the list of its drone.
  For the drone identifier \<open>toString\<close> the message has type \<open>telemetry\<close> and the update
  throws: the sample is stored nowhere.
\<close>

theorem onmessage_inherited_name_throws:
  "msg_type msg_toString = ''telemetry''
   \<and> TelemetryData.drone_id (data msg_toString) = ''toString''
   \<and> onmessage msg_toString state1 = Inl TypeError"
  by (simp add: onmessage_def get_property_def object_prototype_names_def msg_toString_def
        sample_def state1_def)

section \<open>Properties of flight submission\<close>

text \<open>
  Claim C4. With fewer than two waypoints in the form, \<open>createFlight\<close> only alerts the
  operator: it sends no flight-creation request, whatever the environment.
\<close>

theorem createFlight_too_few_waypoints:
  "length (FlightForm.waypoints flightForm) < 2 \<Longrightarrow>
     createFlight toISOString fetch flightForm = [PreventDefault, Alert alert_min_waypoints]
     \<and> \<not> list_ex is_post (createFlight toISOString fetch flightForm)"
  by (simp add: createFlight_def)

theorem createFlight_too_few_waypoints_witness:
  "length (FlightForm.waypoints form1) < 2
   \<and> createFlight iso_utc (\<lambda>_. Some \<lparr>ok = True, json = Some flight_approved_empty\<rparr>) form1
       = [PreventDefault, Alert alert_min_waypoints]
   \<and> \<not> list_ex is_post
         (createFlight iso_utc (\<lambda>_. Some \<lparr>ok = True, json = Some flight_approved_empty\<rparr>) form1)"
proof -
  have short: "length (FlightForm.waypoints form1) < 2" by (simp add: form1_def)
  from createFlight_too_few_waypoints [OF short] short show ?thesis by simp
qed

text \<open>
  Claim C2. The client should report a created flight as rejected exactly when its status
  is rejected. At a response with status approved and an empty violations array,
  \<open>createFlight\<close> alerts the rejection text (with an empty list of zones), not the approval
  text.
\<close>

theorem createFlight_empty_violations_reported_rejected:
  "status flight_approved_empty = ''approved''
   \<and> violations flight_approved_empty = Some []
   \<and> createFlight iso_utc (\<lambda>_. Some \<lparr>ok = True, json = Some flight_approved_empty\<rparr>) form3
       = [PreventDefault,
          Post (API_BASE @ ''/flights/'')
            (form3\<lparr>FlightForm.start_time := ''2025-01-01T10:00:00.000Z'',
                    FlightForm.end_time := ''2025-01-01T11:00:00.000Z''\<rparr>),
          Alert alert_rejected,
          SetFlightForm empty_form,
          LoadData]
   \<and> alert_rejected \<noteq> alert_approved"
  by (simp add: createFlight_def flight_approved_empty_def iso_utc_def form3_def
        alert_rejected_def alert_approved_def)

section \<open>Properties of the flight list\<close>

text \<open>
  Claim C7. An entry of the flight list offers the button that calls \<open>simulateFlight\<close> with
  the identifier of its flight if and only if the status of the flight is \<open>approved\<close>.
\<close>

theorem simulate_button_iff_approved:
  "(simulate_button (renderStatusCell flight) \<noteq> None) = (status flight = ''approved'')
   \<and> (status flight = ''approved'' \<longrightarrow>
        simulate_button (renderStatusCell flight) = Some (SimulateFlight (Flight.id flight)))
   \<and> length (renderFlightList flights) = length flights
   \<and> (\<forall>i < length flights.
        simulate_button (renderFlightList flights ! i)
          = (if status (flights ! i) = ''approved''
             then Some (SimulateFlight (Flight.id (flights ! i))) else None))"
  by (simp add: renderStatusCell_def renderFlightList_def)

theorem simulate_button_iff_approved_witness:
  "status flight_approved_empty = ''approved''
   \<and> simulate_button (renderStatusCell flight_approved_empty) = Some (SimulateFlight ''f1'')
   \<and> status flight_rejected \<noteq> ''approved''
   \<and> simulate_button (renderStatusCell flight_rejected) = None
   \<and> (1::nat) < length [flight_approved_empty, flight_rejected]
   \<and> simulate_button (renderFlightList [flight_approved_empty, flight_rejected] ! 1) = None"
proof -
  have a: "status flight_approved_empty = ''approved''"
    and i: "Flight.id flight_approved_empty = ''f1''"
    by (simp_all add: flight_approved_empty_def)
  have r: "status flight_rejected \<noteq> ''approved''"
    by (simp add: flight_rejected_def)
  have "simulate_button (renderFlightList [flight_approved_empty, flight_rejected] ! 1) = None"
    using simulate_button_iff_approved [of flight_rejected "[flight_approved_empty, flight_rejected]"] r
    by (simp add: nth_Cons')
  then show ?thesis
    using simulate_button_iff_approved [of flight_approved_empty "[]"]
          simulate_button_iff_approved [of flight_rejected "[]"] a i r
    by simp
qed

section \<open>Properties of the geofence check\<close>

text \<open>Each clipping step keeps the parameters of the interval that lie in its half-plane.\<close>

lemma params_clip: "params (clip p q interval) = {t \<in> params interval. p * t \<le> q}"
proof (cases interval)
  case None
  then show ?thesis by (simp add: clip_def params_def)
next
  case (Some iv)
  obtain lo hi where iv: "iv = (lo, hi)" by (cases iv)
  consider "p = 0" | "p < 0" | "p > 0" by linarith
  then show ?thesis
  proof cases
    case 1
    then show ?thesis using Some iv by (auto simp: clip_def params_def)
  next
    case 2
    then have "p * t \<le> q \<longleftrightarrow> q / p \<le> t" for t
      by (simp add: divide_le_eq mult.commute)
    with 2 show ?thesis using Some iv by (auto simp: clip_def params_def)
  next
    case 3
    then have "p * t \<le> q \<longleftrightarrow> t \<le> q / p" for t
      by (simp add: le_divide_eq mult.commute)
    with 3 show ?thesis using Some iv by (auto simp: clip_def params_def)
  qed
qed

lemma crosses_params: "crosses a b z \<longleftrightarrow> params (clip_segment a b z) \<noteq> {}"
  by (auto simp: crosses_def params_def split: option.splits)

lemma params_unit: "params (Some (0, 1)) = {t. 0 \<le> t \<and> t \<le> 1}"
  by (simp add: params_def)

lemma params_clip_segment:
  "params (clip_segment a b z) = {t. 0 \<le> t \<and> t \<le> 1 \<and> inside (along a b t) z}"
  by (auto simp: clip_segment_def Let_def params_clip params_unit inside_def along_def algebra_simps)

lemma crosses_iff: "crosses a b z \<longleftrightarrow> (\<exists>t. 0 \<le> t \<and> t \<le> 1 \<and> inside (along a b t) z)"
  by (auto simp: crosses_params params_clip_segment)

lemma along_flip: "along b a (1 - t) = along a b t"
  by (simp add: along_def algebra_simps)

lemma crosses_flip_imp: "crosses a b z \<Longrightarrow> crosses b a z"
proof -
  assume "crosses a b z"
  then obtain t where t: "0 \<le> t" "t \<le> 1" "inside (along a b t) z"
    by (auto simp: crosses_iff)
  then have "0 \<le> 1 - t \<and> 1 - t \<le> 1 \<and> inside (along b a (1 - t)) z"
    by (simp add: along_flip)
  then show "crosses b a z" unfolding crosses_iff by blast
qed

lemma crosses_flip: "crosses a b z = crosses b a z"
  using crosses_flip_imp by blast

lemma segment_intersects_flip: "segment_intersects a b z = segment_intersects b a z"
  using crosses_flip [of a b z] by (auto simp: segment_intersects_def)

lemma segments_snoc:
  "segments (xs @ [y]) = segments xs @ (if xs = [] then [] else [(last xs, y)])"
  by (induction xs rule: segments.induct) auto

lemma segments_rev: "segments (rev xs) = rev (map (\<lambda>(a, b). (b, a)) (segments xs))"
proof (induction xs rule: segments.induct)
  case (1 a b rest)
  have "segments (rev (a # b # rest)) = segments (rev (b # rest) @ [a])"
    by simp
  also have "\<dots> = segments (rev (b # rest)) @ [(b, a)]"
    by (subst segments_snoc) simp
  finally show ?case using 1 by simp
qed simp_all

lemma hit_rev:
  "list_ex (\<lambda>(a, b). segment_intersects a b z) (segments (rev path))
     = list_ex (\<lambda>(a, b). segment_intersects a b z) (segments path)"
proof -
  have "set (segments (rev path)) = (\<lambda>(a, b). (b, a)) ` set (segments path)"
    by (simp add: segments_rev)
  moreover have "(case (case x of (a, b) \<Rightarrow> (b, a)) of (a, b) \<Rightarrow> segment_intersects a b z)
                   = (case x of (a, b) \<Rightarrow> segment_intersects a b z)" for x
    using segment_intersects_flip by (cases x) auto
  ultimately show ?thesis
    by (simp add: list_ex_iff)
qed

text \<open>
  Claim C3. \<open>checkViolations\<close> flags the same set of zones for a route and for its reversal.
\<close>

theorem checkViolations_rev: "checkViolations (rev path) zs = checkViolations path zs"
  by (simp add: checkViolations_def hit_rev)

text \<open>The two examples of section 8 of the specification.\<close>

lemma route_outside_example:
  "checkViolations [\<lparr>latitude = 40, longitude = 40\<rparr>, \<lparr>latitude = 41, longitude = 41\<rparr>] [zone_a] = {}"
  by (simp add: checkViolations_def zone_a_def segment_intersects_def inside_def crosses_def
        clip_segment_def clip_def)

lemma crossing_hits: "checkViolations (route plan_crossing) (zones airspace_sample) = {''B''}"
  by (simp add: plan_crossing_def airspace_sample_def checkViolations_def zone_b_def
        segment_intersects_def inside_def crosses_def clip_segment_def clip_def)

lemma clear_misses: "checkViolations (route plan_clear) (zones airspace_sample) = {}"
  by (simp add: plan_clear_def plan_crossing_def airspace_sample_def checkViolations_def zone_b_def
        segment_intersects_def inside_def crosses_def clip_segment_def clip_def)

lemma valid_samples: "valid_plan airspace_sample plan_crossing" "valid_plan airspace_sample plan_clear"
  by (simp_all add: valid_plan_def plan_clear_def plan_crossing_def airspace_sample_def)

lemma registry_sample_states:
  "length registry_sample = 2"
  "state (registry_sample ! 0) = rejected"
  "state (registry_sample ! 1) = approved"
  by (simp_all add: registry_sample_def handle_def submit_def valid_samples crossing_hits
        clear_misses create_def decide_def start_simulation_def nth_append
        FlightPlan.extend_def RegisteredFlight.fields_def)

section \<open>Properties of the flight registry\<close>

lemma consistent_update:
  assumes all: "\<forall>f \<in> set reg. consistent f" and g: "consistent g"
  shows "\<forall>f \<in> set (reg[i := g]). consistent f"
proof
  fix f
  assume "f \<in> set (reg[i := g])"
  then have "f \<in> insert g (set reg)"
    using set_update_subset_insert [of reg i g] by blast
  then show "consistent f" using all g by auto
qed

lemma create_consistent:
  "\<forall>f \<in> set reg. consistent f \<Longrightarrow> \<forall>f \<in> set (create plan reg). consistent f"
  by (auto simp: create_def consistent_def FlightPlan.extend_def RegisteredFlight.fields_def)

lemma decide_consistent:
  assumes "\<forall>f \<in> set reg. consistent f"
  shows "\<forall>f \<in> set (decide i found reg). consistent f"
proof (cases "i < length reg \<and> state (reg ! i) = pending")
  case True
  have "consistent ((reg ! i)\<lparr>state := (if found \<noteq> {} then rejected else approved),
                               violated := found\<rparr>)"
    by (simp add: consistent_def)
  from consistent_update [OF assms this] show ?thesis using True by (simp add: decide_def)
next
  case False
  then show ?thesis using assms by (auto simp: decide_def)
qed

lemma handle_consistent:
  assumes "\<forall>f \<in> set reg. consistent f" and "handle env r reg = Inr reg'"
  shows "\<forall>f \<in> set reg'. consistent f"
proof (cases r)
  case (Submit plan)
  with assms(2) have "reg' = decide (length reg) (checkViolations (route plan) (zones env))
                               (create plan reg)"
    by (simp add: handle_def submit_def split: if_splits)
  then show ?thesis
    using decide_consistent [OF create_consistent [OF assms(1)]] by simp
next
  case (Simulate i)
  with assms(2) have i: "i < length reg" "state (reg ! i) = approved"
    and eq: "reg' = reg[i := (reg ! i)\<lparr>state := active\<rparr>]"
    by (auto simp: handle_def start_simulation_def split: if_splits)
  from i assms(1) have "consistent (reg ! i)" by simp
  with i have "consistent ((reg ! i)\<lparr>state := active\<rparr>)"
    by (simp add: consistent_def)
  from consistent_update [OF assms(1) this] show ?thesis by (simp add: eq)
next
  case (Arrive i)
  with assms(2) have i: "i < length reg" "state (reg ! i) = active"
    and eq: "reg' = reg[i := (reg ! i)\<lparr>state := completed\<rparr>]"
    by (auto simp: handle_def finish_simulation_def split: if_splits)
  from i assms(1) have "consistent (reg ! i)" by simp
  with i have "consistent ((reg ! i)\<lparr>state := completed\<rparr>)"
    by (simp add: consistent_def)
  from consistent_update [OF assms(1) this] show ?thesis by (simp add: eq)
qed

lemma serve_consistent:
  "\<forall>f \<in> set reg. consistent f \<Longrightarrow> \<forall>f \<in> set (serve env rs reg). consistent f"
proof (induction rs arbitrary: reg)
  case Nil
  then show ?case by simp
next
  case (Cons r rs)
  show ?case
  proof (cases "handle env r reg")
    case (Inl e)
    then show ?thesis using Cons by simp
  next
    case (Inr reg')
    then show ?thesis using Cons handle_consistent [OF Cons.prems Inr] by simp
  qed
qed

text \<open>
  Claim C1. For every flight the registry holds after any history of submissions, simulation
  triggers and completions, the violations are non-empty if and only if the status is
  rejected, and an approved flight has none.
\<close>

theorem violations_iff_rejected:
  "\<forall>f \<in> set (serve env rs []).
     ((violated f \<noteq> {}) = (state f = rejected)) \<and> (state f = approved \<longrightarrow> violated f = {})"
  using serve_consistent [of "[]" env rs] by (auto simp: consistent_def)

theorem violations_iff_rejected_witness:
  "registry_sample ! 0 \<in> set registry_sample
   \<and> state (registry_sample ! 0) = rejected \<and> violated (registry_sample ! 0) \<noteq> {}
   \<and> registry_sample ! 1 \<in> set registry_sample
   \<and> state (registry_sample ! 1) = approved \<and> violated (registry_sample ! 1) = {}"
proof -
  have mem: "registry_sample ! 0 \<in> set registry_sample" "registry_sample ! 1 \<in> set registry_sample"
    by (simp_all add: registry_sample_states)
  show ?thesis
    using violations_iff_rejected
            [of airspace_sample "[Submit plan_crossing, Submit plan_clear, Simulate 0]"]
          mem registry_sample_states
    unfolding registry_sample_def [symmetric] by metis
qed

end
